theory Spec2Isabelle
  imports Main "HOL-Library.Word"
begin

section \<open>Data model of package pcap (capture.go)\<close>

text \<open>
  A Go byte slice is modelled by the list of the bytes it holds. The nil slice and the
  empty slice are both the empty list: \<open>len\<close>, \<open>append\<close> and the slice expression
  \<open>b[k:]\<close> agree on them. Capacity is not modelled: \<open>append\<close> yields the same bytes
  whether or not it reallocates, and nothing appended through one session-table entry
  overwrites the bytes another stored slice covers.
\<close>

type_synonym byte = "8 word"
type_synonym bytes = "byte list"

text \<open>What \<open>ip.NextLayerType()\<close> yields: TCP, UDP, or any other layer (with its name).\<close>

datatype layer_type = LayerTypeTCP | LayerTypeUDP | LayerTypeOther string

record IPv4 =
  SrcIP :: bytes
  DstIP :: bytes
  NextLayerType :: layer_type

text \<open>
  The fields of \<open>layers.TCP\<close> and \<open>layers.UDP\<close> that the loop reads. \<open>FastHash\<close> is the
  value of \<open>TransportFlow().FastHash()\<close> of the header, computed by the packet library.
\<close>

record TCP =
  tcp_SrcPort :: "16 word"
  tcp_DstPort :: "16 word"
  SYN :: bool
  ACK :: bool
  FIN :: bool
  tcp_Payload :: bytes
  tcp_FastHash :: "64 word"

record UDP =
  udp_SrcPort :: "16 word"
  udp_DstPort :: "16 word"
  udp_Payload :: bytes
  udp_FastHash :: "64 word"

text \<open>
  A decoded packet: \<open>pkg.Layer(t)\<close> is the layer of type \<open>t\<close>, or the nil interface
  (\<open>None\<close>) when the packet has no such layer.
\<close>

record packet =
  layer_IPv4 :: "IPv4 option"
  layer_TCP :: "TCP option"
  layer_UDP :: "UDP option"

text \<open>\<open>net.Addr\<close>: a TCP or UDP address (IP, port); a nil \<open>net.Addr\<close> is \<open>None\<close>.\<close>

datatype addr = TCPAddr bytes int | UDPAddr bytes int

text \<open>The error a data handler returns: the sentinel \<open>io.EOF\<close>, or any other error.\<close>

datatype herror = EOF | OtherError string

text \<open>
  \<open>pkt4go.DataHandler\<close>: a function value of the caller's. It may be a closure with
  state of its own, so it takes and returns that state; it yields \<open>(usedSize, err)\<close>.
\<close>

type_synonym 'h DataHandler =
  "'h \<Rightarrow> addr option \<Rightarrow> addr option \<Rightarrow> bytes \<Rightarrow> (int \<times> herror option) \<times> 'h"

datatype log_entry =
  UnsupportedTransportLayer string
| DataHandlerFailed "addr option" "addr option" herror

text \<open>
  The state of one run of \<open>StartCapture\<close>: the local map \<open>sessionBuffers\<close>, the state of
  the handler closure, and two traces of the effects of the loop: the arguments of every
  call of the handler (oldest first) and the lines logged.
\<close>

record 'h state =
  sessionBuffers :: "64 word \<rightharpoonup> bytes"
  handler_state :: 'h
  calls :: "(addr option \<times> addr option \<times> bytes) list"
  logs :: "log_entry list"

datatype capture_error = SetBPFFilterFailed string | NotValidIPv4Packet

datatype panic = InterfaceConversionNil | NilPointerDereference | SliceBoundsOutOfRange

text \<open>How one iteration of the loop body ends: \<open>continue\<close>, \<open>return e\<close>, or a run-time panic.\<close>

datatype control = Continue | Stop "capture_error option" | Crash panic

text \<open>
  What the loop has done after a finite sequence of events: returned (nil or an error),
  panicked, or is still blocked in \<open>select\<close> waiting for the next event.
\<close>

datatype outcome = Returned "capture_error option" | Panicked panic | Waiting

text \<open>
  The events the \<open>select\<close> statement receives, in the order it receives them:
  \<open>ctx.Done()\<close>, or a value from the packets channel (nil, \<open>None\<close>, once it is closed).
\<close>

datatype event = CtxDone | Pkg "packet option"

section \<open>StartCapture\<close>

text \<open>
  A single-value type assertion \<open>x.(*T)\<close> panics when \<open>x\<close> is the nil interface, and
  yields the pointer held otherwise (line 106).
\<close>

fun type_assert :: "'a option \<Rightarrow> panic + 'a option" where
  "type_assert None = Inl InterfaceConversionNil"
| "type_assert (Some x) = Inr (Some x)"

text \<open>The slice expression \<open>buffer[usedSize:]\<close>: in range iff \<open>0 \<le> usedSize \<le> len(buffer)\<close>.\<close>

definition slice_from :: "bytes \<Rightarrow> int \<Rightarrow> panic + bytes" where
  "slice_from buffer usedSize =
     (if 0 \<le> usedSize \<and> usedSize \<le> int (length buffer)
      then Inr (drop (nat usedSize) buffer)
      else Inl SliceBoundsOutOfRange)"

text \<open>Lines 161 to 171: the call of the handler and what the loop does with its result.\<close>

definition deliver ::
  "'h DataHandler \<Rightarrow> addr option \<Rightarrow> addr option \<Rightarrow> 64 word \<Rightarrow> bytes \<Rightarrow> 'h state
     \<Rightarrow> control \<times> 'h state" where
  "deliver fn src dst flowHash buffer st =
     (case fn (handler_state st) src dst buffer of
        ((usedSize, err), h') \<Rightarrow>
          (let st1 = st\<lparr>handler_state := h', calls := calls st @ [(src, dst, buffer)]\<rparr> in
           case err of
             Some e \<Rightarrow>
               if e = EOF then (Stop None, st1)
               else (Continue, st1\<lparr>logs := logs st1 @ [DataHandlerFailed src dst e]\<rparr>)
           | None \<Rightarrow>
               if int (length buffer) \<noteq> usedSize then
                 (case slice_from buffer usedSize of
                    Inl p \<Rightarrow> (Crash p, st1)
                  | Inr rest \<Rightarrow>
                      (Continue,
                       st1\<lparr>sessionBuffers := (sessionBuffers st1)(flowHash \<mapsto> rest)\<rparr>))
               else (Continue, st1)))"

text \<open>Lines 120 to 147: the TCP case of the switch.\<close>

definition process_tcp ::
  "'h DataHandler \<Rightarrow> IPv4 \<Rightarrow> TCP option \<Rightarrow> 'h state \<Rightarrow> control \<times> 'h state" where
  "process_tcp fn ip layer st =
     (case layer of
        None \<Rightarrow> (Crash NilPointerDereference, st)
      | Some tcp \<Rightarrow>
          (let src = TCPAddr (SrcIP ip) (uint (tcp_SrcPort tcp));
               dst = TCPAddr (DstIP ip) (uint (tcp_DstPort tcp));
               flowHash = tcp_FastHash tcp
           in if SYN tcp \<and> ACK tcp then
                (Continue, st\<lparr>sessionBuffers := (sessionBuffers st)(flowHash \<mapsto> [])\<rparr>)
              else if FIN tcp \<and> ACK tcp then
                (Continue, st\<lparr>sessionBuffers := (sessionBuffers st)(flowHash := None)\<rparr>)
              else if length (tcp_Payload tcp) \<le> 0 then (Continue, st)
              else (case sessionBuffers st flowHash of
                      None \<Rightarrow> (Continue, st)
                    | Some buffer \<Rightarrow>
                        deliver fn (Some src) (Some dst) flowHash
                          (buffer @ tcp_Payload tcp) st)))"

text \<open>Lines 148 to 156: the UDP case of the switch.\<close>

definition process_udp ::
  "'h DataHandler \<Rightarrow> IPv4 \<Rightarrow> UDP option \<Rightarrow> 'h state \<Rightarrow> control \<times> 'h state" where
  "process_udp fn ip layer st =
     (case layer of
        None \<Rightarrow> (Crash NilPointerDereference, st)
      | Some udp \<Rightarrow>
          (let src = UDPAddr (SrcIP ip) (uint (udp_SrcPort udp));
               dst = UDPAddr (DstIP ip) (uint (udp_DstPort udp));
               flowHash = udp_FastHash udp;
               buffer = (case sessionBuffers st flowHash of
                           Some b \<Rightarrow> b @ udp_Payload udp
                         | None \<Rightarrow> [])
           in deliver fn (Some src) (Some dst) flowHash buffer st))"

text \<open>
  Lines 106 to 171: the loop body for a packet, once the handler is known not to be nil.
  In the default case of the switch \<open>src\<close> and \<open>dst\<close> are nil, \<open>flowHash\<close> is 0 and
  \<open>buffer\<close> is nil, and control falls through to the call of the handler.
\<close>

definition process_packet :: "'h DataHandler \<Rightarrow> packet \<Rightarrow> 'h state \<Rightarrow> control \<times> 'h state" where
  "process_packet fn pkg st =
     (case type_assert (layer_IPv4 pkg) of
        Inl p \<Rightarrow> (Crash p, st)
      | Inr None \<Rightarrow> (Stop (Some NotValidIPv4Packet), st)
      | Inr (Some ip) \<Rightarrow>
          (case NextLayerType ip of
             LayerTypeTCP \<Rightarrow> process_tcp fn ip (layer_TCP pkg) st
           | LayerTypeUDP \<Rightarrow> process_udp fn ip (layer_UDP pkg) st
           | LayerTypeOther name \<Rightarrow>
               deliver fn None None 0 []
                 (st\<lparr>logs := logs st @ [UnsupportedTransportLayer name]\<rparr>)))"

text \<open>
  Lines 93 to 173: the loop, over the events it receives. A nil handler skips the packet
  before anything else is done with it (lines 102 to 104).
\<close>

fun capture_loop :: "'h DataHandler option \<Rightarrow> event list \<Rightarrow> 'h state \<Rightarrow> outcome \<times> 'h state" where
  "capture_loop fn [] st = (Waiting, st)"
| "capture_loop fn (CtxDone # evs) st = (Returned None, st)"
| "capture_loop fn (Pkg None # evs) st = (Returned None, st)"
| "capture_loop fn (Pkg (Some pkg) # evs) st =
     (case fn of
        None \<Rightarrow> capture_loop fn evs st
      | Some f \<Rightarrow>
          (case process_packet f pkg st of
             (Continue, st') \<Rightarrow> capture_loop fn evs st'
           | (Stop e, st') \<Rightarrow> (Returned e, st')
           | (Crash p, st') \<Rightarrow> (Panicked p, st')))"

definition init_state :: "'h \<Rightarrow> 'h state" where
  "init_state h = \<lparr>sessionBuffers = Map.empty, handler_state = h, calls = [], logs = []\<rparr>"

text \<open>
  \<open>StartCapture\<close>: \<open>filter_err\<close> is the result of \<open>handler.SetBPFFilter(filter)\<close>
  (\<open>None\<close> for nil), \<open>h\<close> the initial state of the handler closure.
\<close>

definition StartCapture ::
  "string option \<Rightarrow> 'h DataHandler option \<Rightarrow> 'h \<Rightarrow> event list \<Rightarrow> outcome \<times> 'h state" where
  "StartCapture filter_err fn h evs =
     (case filter_err of
        Some e \<Rightarrow> (Returned (Some (SetBPFFilterFailed e)), init_state h)
      | None \<Rightarrow> capture_loop fn evs (init_state h))"

text \<open>
  The packets the claims speak of. A TCP packet has an IPv4 layer whose next layer is
  TCP and a decoded TCP layer; \<open>tcp_src\<close> and \<open>tcp_dst\<close> are the endpoints the loop builds
  for it (lines 122 and 123). A data segment is a TCP packet that reaches the session
  lookup of line 143: neither SYN+ACK nor FIN+ACK, with a payload.
\<close>

definition tcp_src :: "IPv4 \<Rightarrow> TCP \<Rightarrow> addr" where
  "tcp_src ip tcp = TCPAddr (SrcIP ip) (uint (tcp_SrcPort tcp))"

definition tcp_dst :: "IPv4 \<Rightarrow> TCP \<Rightarrow> addr" where
  "tcp_dst ip tcp = TCPAddr (DstIP ip) (uint (tcp_DstPort tcp))"

definition tcp_packet :: "packet \<Rightarrow> IPv4 \<Rightarrow> TCP \<Rightarrow> bool" where
  "tcp_packet pkg ip tcp \<longleftrightarrow>
     layer_IPv4 pkg = Some ip \<and> NextLayerType ip = LayerTypeTCP \<and> layer_TCP pkg = Some tcp"

definition data_segment :: "packet \<Rightarrow> IPv4 \<Rightarrow> TCP \<Rightarrow> bool" where
  "data_segment pkg ip tcp \<longleftrightarrow>
     tcp_packet pkg ip tcp \<and> \<not> (SYN tcp \<and> ACK tcp) \<and> \<not> (FIN tcp \<and> ACK tcp) \<and>
     tcp_Payload tcp \<noteq> []"

text \<open>The event is a TCP packet with SYN and ACK set whose flow hash is \<open>F\<close>.\<close>

fun handshake_for :: "64 word \<Rightarrow> event \<Rightarrow> bool" where
  "handshake_for F (Pkg (Some pkg)) =
     (case layer_IPv4 pkg of
        None \<Rightarrow> False
      | Some ip \<Rightarrow>
          NextLayerType ip = LayerTypeTCP \<and>
          (case layer_TCP pkg of
             None \<Rightarrow> False
           | Some tcp \<Rightarrow> SYN tcp \<and> ACK tcp \<and> tcp_FastHash tcp = F))"
| "handshake_for F ev = False"

section \<open>CreateHandler\<close>

text \<open>
  What \<open>CreateHandler\<close> calls outside the package, as parameters: \<open>net.ResolveIPAddr\<close>
  (\<open>None\<close> when it returns an error), \<open>net.IP.Equal\<close>, \<open>libpcap.FindAllDevs\<close>,
  \<open>libpcap.OpenLive\<close> and \<open>libpcap.OpenOffline\<close> (\<open>Inl\<close> the error).
\<close>

record iface =
  Name :: string
  Addresses :: "bytes list"

record 'hd pcap_env =
  ResolveIPAddr :: "string \<Rightarrow> bytes option"
  IPEqual :: "bytes \<Rightarrow> bytes \<Rightarrow> bool"
  FindAllDevs :: "string + iface list"
  OpenLive :: "string \<Rightarrow> string + 'hd"
  OpenOffline :: "string \<Rightarrow> string + 'hd"

datatype create_error =
  InvalidDataSource string
| UnknownPcapProtocol string
| WithStack string

text \<open>
  \<open>dataSourcePattern.FindStringSubmatch\<close> for the pattern
  \<^verbatim>\<open>^(?P<proto>pcap|file)://(?P<source>.*)$\<close>: the groups \<open>(proto, source)\<close> of the
  match. The pattern is anchored at both ends and \<open>.\<close> matches no newline.
\<close>

definition FindStringSubmatch :: "string \<Rightarrow> (string \<times> string) option" where
  "FindStringSubmatch s =
     (if CHR 0x0A \<in> set (drop 7 s) then None
      else if take 7 s = ''pcap://'' then Some (''pcap'', drop 7 s)
      else if take 7 s = ''file://'' then Some (''file'', drop 7 s)
      else None)"

text \<open>Lines 50 to 58: the name of the first interface with an address equal to \<open>ip\<close>.\<close>

fun find_iface :: "(bytes \<Rightarrow> bytes \<Rightarrow> bool) \<Rightarrow> bytes \<Rightarrow> iface list \<Rightarrow> string \<Rightarrow> string" where
  "find_iface eq ip [] source = source"
| "find_iface eq ip (i # ifaceList) source =
     (if list_ex (\<lambda>a. eq a ip) (Addresses i) then Name i
      else find_iface eq ip ifaceList source)"

text \<open>Lines 43 to 59: done after the match, whatever \<open>proto\<close> is.\<close>

definition resolve_source :: "'hd pcap_env \<Rightarrow> string \<Rightarrow> create_error + string" where
  "resolve_source env source =
     (case ResolveIPAddr env source of
        None \<Rightarrow> Inr source
      | Some ip \<Rightarrow>
          (case FindAllDevs env of
             Inl e \<Rightarrow> Inl (WithStack e)
           | Inr ifaceList \<Rightarrow> Inr (find_iface (IPEqual env) ip ifaceList source)))"

definition open_live :: "'hd pcap_env \<Rightarrow> string \<Rightarrow> create_error + 'hd" where
  "open_live env source =
     (case OpenLive env source of Inl e \<Rightarrow> Inl (WithStack e) | Inr h \<Rightarrow> Inr h)"

definition open_offline :: "'hd pcap_env \<Rightarrow> string \<Rightarrow> create_error + 'hd" where
  "open_offline env source =
     (case OpenOffline env source of Inl e \<Rightarrow> Inl (WithStack e) | Inr h \<Rightarrow> Inr h)"

definition CreateHandler :: "'hd pcap_env \<Rightarrow> string \<Rightarrow> create_error + 'hd" where
  "CreateHandler env dataSrc =
     (case FindStringSubmatch dataSrc of
        None \<Rightarrow> Inl (InvalidDataSource dataSrc)
      | Some (proto, source0) \<Rightarrow>
          (case resolve_source env source0 of
             Inl e \<Rightarrow> Inl e
           | Inr source \<Rightarrow>
               if proto = ''pcap'' then open_live env source
               else if proto = ''file'' then open_offline env source
               else Inl (UnknownPcapProtocol proto)))"

section \<open>Concrete packets and handlers\<close>

text \<open>
  A TCP segment from 10.0.0.1:1234 to 10.0.0.2:80 with the given flow hash, flags and
  payload, and the three kinds of segment the session lifecycle tells apart.
\<close>

definition tcp_segment :: "64 word \<Rightarrow> bool \<Rightarrow> bool \<Rightarrow> bool \<Rightarrow> bytes \<Rightarrow> packet" where
  "tcp_segment h syn ack fin bs =
     \<lparr>layer_IPv4 = Some \<lparr>SrcIP = [10, 0, 0, 1], DstIP = [10, 0, 0, 2],
                          NextLayerType = LayerTypeTCP\<rparr>,
      layer_TCP = Some \<lparr>tcp_SrcPort = 1234, tcp_DstPort = 80, SYN = syn, ACK = ack,
                        FIN = fin, tcp_Payload = bs, tcp_FastHash = h\<rparr>,
      layer_UDP = None\<rparr>"

definition handshake :: "64 word \<Rightarrow> packet" where
  "handshake h = tcp_segment h True True False []"

definition teardown :: "64 word \<Rightarrow> packet" where
  "teardown h = tcp_segment h False True True []"

definition payload :: "64 word \<Rightarrow> bytes \<Rightarrow> packet" where
  "payload h bs = tcp_segment h False True False bs"

text \<open>A UDP datagram, an ICMP packet (neither TCP nor UDP), and an ARP frame (no IPv4 layer).\<close>

definition udp_datagram :: "64 word \<Rightarrow> bytes \<Rightarrow> packet" where
  "udp_datagram h bs =
     \<lparr>layer_IPv4 = Some \<lparr>SrcIP = [10, 0, 0, 1], DstIP = [10, 0, 0, 2],
                          NextLayerType = LayerTypeUDP\<rparr>,
      layer_TCP = None,
      layer_UDP = Some \<lparr>udp_SrcPort = 5353, udp_DstPort = 53, udp_Payload = bs,
                        udp_FastHash = h\<rparr>\<rparr>"

definition icmp_packet :: packet where
  "icmp_packet =
     \<lparr>layer_IPv4 = Some \<lparr>SrcIP = [10, 0, 0, 1], DstIP = [10, 0, 0, 2],
                          NextLayerType = LayerTypeOther ''ICMPv4''\<rparr>,
      layer_TCP = None, layer_UDP = None\<rparr>"

definition arp_frame :: packet where
  "arp_frame = \<lparr>layer_IPv4 = None, layer_TCP = None, layer_UDP = None\<rparr>"

text \<open>Handlers. The state of a counting handler is the number of calls made so far.\<close>

definition take_one :: "unit DataHandler" where
  "take_one h src dst buffer = ((1, None), h)"

definition take_all :: "unit DataHandler" where
  "take_all h src dst buffer = ((int (length buffer), None), h)"

definition take_one_then_all :: "nat DataHandler" where
  "take_one_then_all n src dst buffer =
     ((if n = 0 then 1 else int (length buffer), None), Suc n)"

definition fail_then_take_all :: "nat DataHandler" where
  "fail_then_take_all n src dst buffer =
     (if n = 0 then ((0, Some (OtherError ''decode failed'')), Suc n)
      else ((int (length buffer), None), Suc n))"

definition stop_at_once :: "unit DataHandler" where
  "stop_at_once h src dst buffer = ((0, Some EOF), h)"

text \<open>The buffers the handler was called with, oldest first.\<close>

definition buffers_seen :: "'h state \<Rightarrow> bytes list" where
  "buffers_seen st = map (\<lambda>(src, dst, buffer). buffer) (calls st)"

text \<open>
  A host for \<open>CreateHandler\<close>: only the literal 127.0.0.1 resolves, the interfaces are
  eth0 (192.168.1.5) and lo (127.0.0.1), and a handle records how it was opened.
\<close>

datatype handle = LiveHandle string | OfflineHandle string

definition loopback_host :: "handle pcap_env" where
  "loopback_host =
     \<lparr>ResolveIPAddr = (\<lambda>s. if s = ''127.0.0.1'' then Some [127, 0, 0, 1] else None),
      IPEqual = (\<lambda>a b. a = b),
      FindAllDevs = Inr [\<lparr>Name = ''eth0'', Addresses = [[192, 168, 1, 5]]\<rparr>,
                         \<lparr>Name = ''lo'', Addresses = [[127, 0, 0, 1]]\<rparr>],
      OpenLive = (\<lambda>s. Inr (LiveHandle s)),
      OpenOffline = (\<lambda>s. Inr (OfflineHandle s))\<rparr>"

section \<open>Properties of the capture loop\<close>

lemmas model_defs = process_packet_def process_tcp_def process_udp_def deliver_def slice_from_def
  StartCapture_def init_state_def buffers_seen_def
lemmas packet_defs = tcp_segment_def handshake_def teardown_def payload_def udp_datagram_def
  icmp_packet_def arp_frame_def

lemma deliver_calls:
  "calls (snd (deliver fn src dst F buffer st)) = calls st @ [(src, dst, buffer)]"
  by (simp add: deliver_def slice_from_def Let_def split: prod.splits option.splits sum.splits)

lemma deliver_other_flow:
  "F' \<noteq> F \<Longrightarrow> sessionBuffers (snd (deliver fn src dst F' buffer st)) F = sessionBuffers st F"
  by (simp add: deliver_def slice_from_def Let_def split: prod.splits option.splits sum.splits)

lemma deliver_nil_buffer:
  "sessionBuffers (snd (deliver fn src dst F' [] st)) = sessionBuffers st"
  by (simp add: deliver_def slice_from_def Let_def split: prod.splits option.splits sum.splits)

lemma deliver_partial:
  assumes "fn (handler_state st) src dst buffer = ((k, None), h')"
    and "0 \<le> k" and "k < int (length buffer)"
  shows "deliver fn src dst F buffer st =
           (Continue, st\<lparr>handler_state := h', calls := calls st @ [(src, dst, buffer)],
                          sessionBuffers := (sessionBuffers st)(F \<mapsto> drop (nat k) buffer)\<rparr>)"
  using assms by (simp add: deliver_def slice_from_def Let_def)

lemma deliver_error:
  assumes "fn (handler_state st) src dst buffer = ((k, Some e), h')" and "e \<noteq> EOF"
  shows "deliver fn src dst F buffer st =
           (Continue, st\<lparr>handler_state := h', calls := calls st @ [(src, dst, buffer)],
                          logs := logs st @ [DataHandlerFailed src dst e]\<rparr>)"
  using assms by (simp add: deliver_def Let_def)

lemma deliver_out_of_range:
  assumes "fn (handler_state st) src dst buffer = ((k, None), h')"
    and "k < 0 \<or> int (length buffer) < k"
  shows "deliver fn src dst F buffer st =
           (Crash SliceBoundsOutOfRange,
            st\<lparr>handler_state := h', calls := calls st @ [(src, dst, buffer)]\<rparr>)"
  using assms by (auto simp add: deliver_def slice_from_def Let_def)

lemma process_data_segment:
  assumes "data_segment pkg ip tcp" and "sessionBuffers st (tcp_FastHash tcp) = Some old"
  shows "process_packet fn pkg st =
           deliver fn (Some (tcp_src ip tcp)) (Some (tcp_dst ip tcp)) (tcp_FastHash tcp)
             (old @ tcp_Payload tcp) st"
  using assms
  by (auto simp add: data_segment_def tcp_packet_def process_packet_def process_tcp_def
      tcp_src_def tcp_dst_def Let_def)

lemma delete_absent:
  assumes "sessionBuffers st F = None"
  shows "st\<lparr>sessionBuffers := (sessionBuffers st)(F := None)\<rparr> = st"
proof -
  have "(sessionBuffers st)(F := None) = sessionBuffers st"
    using assms by (simp add: fun_upd_idem)
  then show ?thesis by simp
qed

lemma process_tcp_absent:
  assumes "tcp_packet pkg ip tcp" and "\<not> (SYN tcp \<and> ACK tcp)"
    and "sessionBuffers st (tcp_FastHash tcp) = None"
  shows "process_packet fn pkg st = (Continue, st)"
  using assms
  by (auto simp add: tcp_packet_def process_packet_def process_tcp_def Let_def delete_absent)

lemma absent_step:
  assumes "sessionBuffers st F = None" and "\<not> handshake_for F (Pkg (Some pkg))"
  shows "sessionBuffers (snd (process_packet fn pkg st)) F = None"
proof (cases "layer_IPv4 pkg")
  case None
  then show ?thesis using assms by (simp add: process_packet_def)
next
  case (Some ip)
  show ?thesis
  proof (cases "NextLayerType ip")
    case LayerTypeTCP
    show ?thesis
    proof (cases "layer_TCP pkg")
      case None
      then show ?thesis using assms Some LayerTypeTCP
        by (simp add: process_packet_def process_tcp_def)
    next
      case (Some tcp)
      then show ?thesis using assms \<open>layer_IPv4 pkg = Some ip\<close> LayerTypeTCP
        by (cases "tcp_FastHash tcp = F")
          (auto simp add: process_packet_def process_tcp_def Let_def deliver_other_flow
            split: option.splits)
    qed
  next
    case LayerTypeUDP
    show ?thesis
    proof (cases "layer_UDP pkg")
      case None
      then show ?thesis using assms Some LayerTypeUDP
        by (simp add: process_packet_def process_udp_def)
    next
      case (Some udp)
      then show ?thesis using assms \<open>layer_IPv4 pkg = Some ip\<close> LayerTypeUDP
        by (cases "udp_FastHash udp = F")
          (auto simp add: process_packet_def process_udp_def Let_def deliver_other_flow
            deliver_nil_buffer split: option.splits)
    qed
  next
    case (LayerTypeOther name)
    then show ?thesis using assms Some
      by (simp add: process_packet_def deliver_nil_buffer)
  qed
qed

lemma absent_run:
  assumes "sessionBuffers st F = None" and "\<forall>e\<in>set evs. \<not> handshake_for F e"
  shows "sessionBuffers (snd (capture_loop fn evs st)) F = None"
  using assms
proof (induction fn evs st rule: capture_loop.induct)
  case (4 fn pkg evs st)
  show ?case
  proof (cases fn)
    case None
    then show ?thesis using 4 by simp
  next
    case (Some f)
    have *: "sessionBuffers (snd (process_packet f pkg st)) F = None"
      using 4 by (simp add: absent_step)
    obtain c st' where r: "process_packet f pkg st = (c, st')"
      by (cases "process_packet f pkg st")
    with * have st': "sessionBuffers st' F = None" by simp
    show ?thesis
    proof (cases c)
      case Continue
      then show ?thesis using 4 Some r st' by simp
    next
      case (Stop e)
      then show ?thesis using Some r st' by simp
    next
      case (Crash p)
      then show ?thesis using Some r st' by simp
    qed
  qed
qed simp_all

lemma capture_loop_append:
  "capture_loop fn (pre @ post) st =
     (case capture_loop fn pre st of
        (Waiting, st') \<Rightarrow> capture_loop fn post st'
      | r \<Rightarrow> r)"
proof (induction fn pre st rule: capture_loop.induct)
  case (4 fn pkg evs st)
  then show ?case
    by (cases fn) (auto split: prod.splits control.splits outcome.splits)
qed (simp_all split: prod.splits outcome.splits)

lemma dropped_while_absent:
  assumes "tcp_packet q ip tcp" and "\<not> (SYN tcp \<and> ACK tcp)"
    and "sessionBuffers st (tcp_FastHash tcp) = None"
    and "\<forall>e\<in>set pre. \<not> handshake_for (tcp_FastHash tcp) e"
  shows "capture_loop fn (pre @ Pkg (Some q) # post) st = capture_loop fn (pre @ post) st"
proof -
  obtain out st' where r: "capture_loop fn pre st = (out, st')"
    by (cases "capture_loop fn pre st")
  have "sessionBuffers (snd (capture_loop fn pre st)) (tcp_FastHash tcp) = None"
    using assms(3,4) by (rule absent_run)
  with r have "sessionBuffers st' (tcp_FastHash tcp) = None" by simp
  with assms(1,2) have "\<And>f. process_packet f q st' = (Continue, st')"
    by (rule process_tcp_absent)
  then have "capture_loop fn (Pkg (Some q) # post) st' = capture_loop fn post st'"
    by (cases fn) simp_all
  then show ?thesis
    by (simp add: capture_loop_append r split: outcome.splits)
qed


text \<open>
  C4. Residual plus append. After a handshake for flow 7 and the payloads AB and CD, a
  handler that always consumes one byte is called with exactly AB and then BCD, and CD is
  what stays stored. In general, when the handler takes \<open>k\<close> bytes, \<open>0 \<le> k < N\<close>, of the
  \<open>N\<close> bytes of buffer \<open>b\<close> it is given for a data segment, the table keeps \<open>b[k:]\<close> for the
  flow and the next data segment of the flow is delivered as \<open>b[k:]\<close> followed by its
  payload.
\<close>

theorem residual_then_append:
  assumes "data_segment p1 ip1 t1" and "data_segment p2 ip2 t2"
    and "tcp_FastHash t1 = F" and "tcp_FastHash t2 = F"
    and "sessionBuffers st F = Some old"
    and "b = old @ tcp_Payload t1"
    and "fn (handler_state st) (Some (tcp_src ip1 t1)) (Some (tcp_dst ip1 t1)) b = ((k, None), h')"
    and "0 \<le> k" and "k < int (length b)"
  shows "fst (process_packet fn p1 st) = Continue \<and>
         calls (snd (process_packet fn p1 st)) =
           calls st @ [(Some (tcp_src ip1 t1), Some (tcp_dst ip1 t1), b)] \<and>
         sessionBuffers (snd (process_packet fn p1 st)) =
           (sessionBuffers st)(F \<mapsto> drop (nat k) b) \<and>
         calls (snd (process_packet fn p2 (snd (process_packet fn p1 st)))) =
           calls st @ [(Some (tcp_src ip1 t1), Some (tcp_dst ip1 t1), b),
                       (Some (tcp_src ip2 t2), Some (tcp_dst ip2 t2),
                        drop (nat k) b @ tcp_Payload t2)] \<and>
         buffers_seen (snd (StartCapture None (Some take_one) ()
           [Pkg (Some (handshake 7)), Pkg (Some (payload 7 [0x41, 0x42])),
            Pkg (Some (payload 7 [0x43, 0x44]))])) = [[0x41, 0x42], [0x42, 0x43, 0x44]] \<and>
         sessionBuffers (snd (StartCapture None (Some take_one) ()
           [Pkg (Some (handshake 7)), Pkg (Some (payload 7 [0x41, 0x42]))])) 7 = Some [0x42] \<and>
         sessionBuffers (snd (StartCapture None (Some take_one) ()
           [Pkg (Some (handshake 7)), Pkg (Some (payload 7 [0x41, 0x42])),
            Pkg (Some (payload 7 [0x43, 0x44]))])) 7 = Some [0x43, 0x44]"
proof -
  let ?src = "Some (tcp_src ip1 t1)" and ?dst = "Some (tcp_dst ip1 t1)"
  let ?st1 = "st\<lparr>handler_state := h', calls := calls st @ [(?src, ?dst, b)],
                   sessionBuffers := (sessionBuffers st)(F \<mapsto> drop (nat k) b)\<rparr>"
  have "process_packet fn p1 st = deliver fn ?src ?dst F b st"
    using assms(1,3,5,6) process_data_segment [of p1 ip1 t1 st old fn] by simp
  also have "\<dots> = (Continue, ?st1)"
    using assms(7,8,9) by (rule deliver_partial)
  finally have one: "process_packet fn p1 st = (Continue, ?st1)" .
  have "sessionBuffers ?st1 (tcp_FastHash t2) = Some (drop (nat k) b)"
    using assms(4) by simp
  with assms(2) have two: "process_packet fn p2 ?st1 =
      deliver fn (Some (tcp_src ip2 t2)) (Some (tcp_dst ip2 t2)) (tcp_FastHash t2)
        (drop (nat k) b @ tcp_Payload t2) ?st1"
    by (rule process_data_segment)
  have general: "fst (process_packet fn p1 st) = Continue \<and>
         calls (snd (process_packet fn p1 st)) = calls st @ [(?src, ?dst, b)] \<and>
         sessionBuffers (snd (process_packet fn p1 st)) =
           (sessionBuffers st)(F \<mapsto> drop (nat k) b) \<and>
         calls (snd (process_packet fn p2 (snd (process_packet fn p1 st)))) =
           calls st @ [(?src, ?dst, b),
                       (Some (tcp_src ip2 t2), Some (tcp_dst ip2 t2),
                        drop (nat k) b @ tcp_Payload t2)]"
    by (simp add: one two deliver_calls)
  have scenario: "buffers_seen (snd (StartCapture None (Some take_one) ()
           [Pkg (Some (handshake 7)), Pkg (Some (payload 7 [0x41, 0x42])),
            Pkg (Some (payload 7 [0x43, 0x44]))])) = [[0x41, 0x42], [0x42, 0x43, 0x44]]"
    by (simp add: model_defs packet_defs take_one_def)
  have residual1: "sessionBuffers (snd (StartCapture None (Some take_one) ()
           [Pkg (Some (handshake 7)), Pkg (Some (payload 7 [0x41, 0x42]))])) 7 = Some [0x42]"
    by (simp add: model_defs packet_defs take_one_def)
  have residual2: "sessionBuffers (snd (StartCapture None (Some take_one) ()
           [Pkg (Some (handshake 7)), Pkg (Some (payload 7 [0x41, 0x42])),
            Pkg (Some (payload 7 [0x43, 0x44]))])) 7 = Some [0x43, 0x44]"
    by (simp add: model_defs packet_defs take_one_def)
  from general scenario residual1 residual2 show ?thesis by blast
qed

theorem residual_then_append_witness:
  "process_packet take_one (payload 7 [0x43, 0x44])
     (snd (process_packet take_one (payload 7 [0x41, 0x42])
        ((init_state ())\<lparr>sessionBuffers := [7 \<mapsto> []]\<rparr>))) =
   (Continue,
    \<lparr>sessionBuffers = [7 \<mapsto> [0x43, 0x44]], handler_state = (),
     calls = [(Some (TCPAddr [10, 0, 0, 1] 1234), Some (TCPAddr [10, 0, 0, 2] 80), [0x41, 0x42]),
              (Some (TCPAddr [10, 0, 0, 1] 1234), Some (TCPAddr [10, 0, 0, 2] 80),
               [0x42, 0x43, 0x44])],
     logs = []\<rparr>) \<and>
   buffers_seen (snd (StartCapture None (Some take_one) ()
     [Pkg (Some (handshake 7)), Pkg (Some (payload 7 [0x41, 0x42])),
      Pkg (Some (payload 7 [0x43, 0x44]))])) = [[0x41, 0x42], [0x42, 0x43, 0x44]] \<and>
   sessionBuffers (snd (StartCapture None (Some take_one) ()
     [Pkg (Some (handshake 7)), Pkg (Some (payload 7 [0x41, 0x42])),
      Pkg (Some (payload 7 [0x43, 0x44]))])) 7 = Some [0x43, 0x44]"
  using residual_then_append [of "payload 7 [0x41, 0x42]"
      "\<lparr>SrcIP = [10, 0, 0, 1], DstIP = [10, 0, 0, 2], NextLayerType = LayerTypeTCP\<rparr>"
      "\<lparr>tcp_SrcPort = 1234, tcp_DstPort = 80, SYN = False, ACK = True, FIN = False,
        tcp_Payload = [0x41, 0x42], tcp_FastHash = 7\<rparr>"
      "payload 7 [0x43, 0x44]"
      "\<lparr>SrcIP = [10, 0, 0, 1], DstIP = [10, 0, 0, 2], NextLayerType = LayerTypeTCP\<rparr>"
      "\<lparr>tcp_SrcPort = 1234, tcp_DstPort = 80, SYN = False, ACK = True, FIN = False,
        tcp_Payload = [0x43, 0x44], tcp_FastHash = 7\<rparr>"
      7 "(init_state ())\<lparr>sessionBuffers := [7 \<mapsto> []]\<rparr>" "[]" "[0x41, 0x42]" take_one 1 "()"]
  by (simp add: model_defs packet_defs take_one_def data_segment_def tcp_packet_def
      tcp_src_def tcp_dst_def)

text \<open>
  C5. TCP session lifecycle. For a TCP packet with flow hash \<open>F\<close>: when SYN and ACK are
  set, the packet leaves \<open>F\<close> mapped to the empty buffer whatever the table held before,
  and changes nothing else (so the handler is not called). When FIN and ACK are set (and
  the packet is not the SYN+ACK of the case before, which the code tests first), the
  packet deletes the entry of \<open>F\<close> and changes nothing else. After such a teardown, a
  later TCP packet of \<open>F\<close> that is not a SYN+ACK, arriving before any SYN+ACK of \<open>F\<close>, is
  dropped: the loop behaves exactly as if the packet had not been in the stream, so it
  ends the same way, in the same state, with the same handler calls.
\<close>

theorem tcp_session_lifecycle:
  assumes "tcp_packet pkg ip tcp" and "tcp_FastHash tcp = F"
  shows "(SYN tcp \<and> ACK tcp \<longrightarrow>
            process_packet fn pkg st =
              (Continue, st\<lparr>sessionBuffers := (sessionBuffers st)(F \<mapsto> [])\<rparr>)) \<and>
         (\<not> SYN tcp \<and> FIN tcp \<and> ACK tcp \<longrightarrow>
            process_packet fn pkg st =
              (Continue, st\<lparr>sessionBuffers := (sessionBuffers st)(F := None)\<rparr>) \<and>
            ((\<forall>e\<in>set pre. \<not> handshake_for F e) \<and> tcp_packet q ipq tq \<and>
             tcp_FastHash tq = F \<and> \<not> (SYN tq \<and> ACK tq) \<longrightarrow>
               capture_loop (Some fn) (Pkg (Some pkg) # pre @ Pkg (Some q) # post) st =
               capture_loop (Some fn) (Pkg (Some pkg) # pre @ post) st))"
proof (intro conjI impI)
  assume "SYN tcp \<and> ACK tcp"
  then show "process_packet fn pkg st =
      (Continue, st\<lparr>sessionBuffers := (sessionBuffers st)(F \<mapsto> [])\<rparr>)"
    using assms by (simp add: tcp_packet_def process_packet_def process_tcp_def)
next
  assume fin: "\<not> SYN tcp \<and> FIN tcp \<and> ACK tcp"
  then show closed: "process_packet fn pkg st =
      (Continue, st\<lparr>sessionBuffers := (sessionBuffers st)(F := None)\<rparr>)"
    using assms by (simp add: tcp_packet_def process_packet_def process_tcp_def)
  assume later: "(\<forall>e\<in>set pre. \<not> handshake_for F e) \<and> tcp_packet q ipq tq \<and>
             tcp_FastHash tq = F \<and> \<not> (SYN tq \<and> ACK tq)"
  let ?st' = "st\<lparr>sessionBuffers := (sessionBuffers st)(F := None)\<rparr>"
  have "sessionBuffers ?st' (tcp_FastHash tq) = None"
    using later by simp
  moreover have "\<forall>e\<in>set pre. \<not> handshake_for (tcp_FastHash tq) e"
    using later by simp
  ultimately have "capture_loop (Some fn) (pre @ Pkg (Some q) # post) ?st' =
      capture_loop (Some fn) (pre @ post) ?st'"
    using later dropped_while_absent [of q ipq tq ?st' pre "Some fn" post] by blast
  then show "capture_loop (Some fn) (Pkg (Some pkg) # pre @ Pkg (Some q) # post) st =
      capture_loop (Some fn) (Pkg (Some pkg) # pre @ post) st"
    by (simp add: closed)
qed

theorem tcp_session_lifecycle_witness:
  "process_packet take_all (handshake 7) ((init_state ())\<lparr>sessionBuffers := [7 \<mapsto> [0x41]]\<rparr>) =
     (Continue, (init_state ())\<lparr>sessionBuffers := [7 \<mapsto> []]\<rparr>) \<and>
   process_packet take_all (teardown 7) ((init_state ())\<lparr>sessionBuffers := [7 \<mapsto> [0x41]]\<rparr>) =
     (Continue, (init_state ())\<lparr>sessionBuffers := Map.empty\<rparr>) \<and>
   capture_loop (Some take_all)
     [Pkg (Some (teardown 7)), Pkg (Some (payload 8 [0x58])), Pkg (Some (payload 7 [0x42]))]
     ((init_state ())\<lparr>sessionBuffers := [7 \<mapsto> [0x41]]\<rparr>) =
   capture_loop (Some take_all)
     [Pkg (Some (teardown 7)), Pkg (Some (payload 8 [0x58]))]
     ((init_state ())\<lparr>sessionBuffers := [7 \<mapsto> [0x41]]\<rparr>)"
  using tcp_session_lifecycle [of "handshake 7"
      "\<lparr>SrcIP = [10, 0, 0, 1], DstIP = [10, 0, 0, 2], NextLayerType = LayerTypeTCP\<rparr>"
      "\<lparr>tcp_SrcPort = 1234, tcp_DstPort = 80, SYN = True, ACK = True, FIN = False,
        tcp_Payload = [], tcp_FastHash = 7\<rparr>" 7 take_all
      "(init_state ())\<lparr>sessionBuffers := [7 \<mapsto> [0x41]]\<rparr>"]
    tcp_session_lifecycle [of "teardown 7"
      "\<lparr>SrcIP = [10, 0, 0, 1], DstIP = [10, 0, 0, 2], NextLayerType = LayerTypeTCP\<rparr>"
      "\<lparr>tcp_SrcPort = 1234, tcp_DstPort = 80, SYN = False, ACK = True, FIN = True,
        tcp_Payload = [], tcp_FastHash = 7\<rparr>" 7 take_all
      "(init_state ())\<lparr>sessionBuffers := [7 \<mapsto> [0x41]]\<rparr>"
      "[Pkg (Some (payload 8 [0x58]))]" "payload 7 [0x42]"
      "\<lparr>SrcIP = [10, 0, 0, 1], DstIP = [10, 0, 0, 2], NextLayerType = LayerTypeTCP\<rparr>"
      "\<lparr>tcp_SrcPort = 1234, tcp_DstPort = 80, SYN = False, ACK = True, FIN = False,
        tcp_Payload = [0x42], tcp_FastHash = 7\<rparr>" "[]"]
  by (simp del: capture_loop.simps add: packet_defs tcp_packet_def init_state_def)

lemma nil_handler_loop:
  "fn = None \<Longrightarrow>
   capture_loop fn evs st =
     (if CtxDone \<in> set evs \<or> Pkg None \<in> set evs then Returned None else Waiting, st)"
  by (induction fn evs st rule: capture_loop.induct) auto

text \<open>
  C10. With a nil handler every packet is skipped before anything is done with it: the
  state of the loop, and with it the session table, is never changed, whatever the
  packets are (a packet with no IPv4 layer included), and the loop returns only at
  cancellation or when the packet channel is closed; until then it keeps waiting.
\<close>

theorem nil_handler_skips_every_packet:
  "capture_loop None evs st =
     (if CtxDone \<in> set evs \<or> Pkg None \<in> set evs then Returned None else Waiting, st) \<and>
   StartCapture None None h evs =
     (if CtxDone \<in> set evs \<or> Pkg None \<in> set evs then Returned None else Waiting,
      init_state h)"
  by (simp add: nil_handler_loop StartCapture_def)

text \<open>
  C1. Full consumption does not drain a buffer that held a residue. After a handshake for
  flow 7, the handler takes 1 of the 2 bytes AB, then all 3 bytes of BCD (no error). The
  table is not written at the full consumption, so it still holds B, and the next payload
  EF is delivered as BEF: the consumed byte B is delivered again.
\<close>

theorem full_consumption_keeps_stale_residual:
  "buffers_seen (snd (StartCapture None (Some take_one_then_all) 0
     [Pkg (Some (handshake 7)), Pkg (Some (payload 7 [0x41, 0x42])),
      Pkg (Some (payload 7 [0x43, 0x44])), Pkg (Some (payload 7 [0x45, 0x46]))])) =
     [[0x41, 0x42], [0x42, 0x43, 0x44], [0x42, 0x45, 0x46]] \<and>
   sessionBuffers (snd (StartCapture None (Some take_one_then_all) 0
     [Pkg (Some (handshake 7)), Pkg (Some (payload 7 [0x41, 0x42])),
      Pkg (Some (payload 7 [0x43, 0x44]))])) 7 = Some [0x42]"
  by (simp add: model_defs packet_defs take_one_then_all_def)

text \<open>
  C3. A packet with no IPv4 layer, met with a handler registered, ends the loop by the
  panic of the type assertion of line 106; the error of line 108 is not returned.
\<close>

theorem packet_without_ipv4_panics:
  "StartCapture None (Some take_all) () [Pkg (Some arp_frame), Pkg (Some (handshake 7))] =
     (Panicked InterfaceConversionNil, init_state ())"
  by (simp add: model_defs packet_defs take_all_def)

text \<open>
  C6. A packet whose transport is neither TCP nor UDP is logged and then handed to the
  handler, with nil endpoints and a nil buffer: a handler answering \<open>io.EOF\<close> stops the
  loop there, and one reporting a positive count makes it panic.
\<close>

theorem unsupported_transport_reaches_handler:
  "StartCapture None (Some stop_at_once) () [Pkg (Some icmp_packet), Pkg (Some (handshake 7))] =
     (Returned None,
      \<lparr>sessionBuffers = Map.empty, handler_state = (), calls = [(None, None, [])],
       logs = [UnsupportedTransportLayer ''ICMPv4'']\<rparr>) \<and>
   StartCapture None (Some take_one) () [Pkg (Some icmp_packet), Pkg (Some (handshake 7))] =
     (Panicked SliceBoundsOutOfRange,
      \<lparr>sessionBuffers = Map.empty, handler_state = (), calls = [(None, None, [])],
       logs = [UnsupportedTransportLayer ''ICMPv4'']\<rparr>) \<and>
   calls (snd (StartCapture None (Some take_all) () [Pkg (Some icmp_packet)])) =
     [(None, None, [])]"
  by (simp add: model_defs packet_defs stop_at_once_def take_one_def take_all_def)

text \<open>
  C2, as stated, fails. After a handshake for flow 7 the payload AB is delivered and the
  handler fails with an error that is not \<open>io.EOF\<close>; the loop goes on, but the table still
  holds the empty buffer stored before AB was appended, and the next payload CD is
  delivered as CD alone: the bytes AB of the failing call are not presented again.
\<close>

theorem handler_error_drops_current_payload:
  "buffers_seen (snd (StartCapture None (Some fail_then_take_all) 0
     [Pkg (Some (handshake 7)), Pkg (Some (payload 7 [0x41, 0x42])),
      Pkg (Some (payload 7 [0x43, 0x44]))])) = [[0x41, 0x42], [0x43, 0x44]] \<and>
   sessionBuffers (snd (StartCapture None (Some fail_then_take_all) 0
     [Pkg (Some (handshake 7)), Pkg (Some (payload 7 [0x41, 0x42]))])) 7 = Some []"
  by (simp add: model_defs packet_defs fail_then_take_all_def)

text \<open>
  C2, amended. When the handler fails with an error other than \<open>io.EOF\<close> on a data
  segment, the loop continues and the session table is left exactly as it was before the
  packet. So the next data segment of the flow is delivered as the bytes stored before
  the failing packet followed by its own payload; the payload of the failing packet is
  not part of it.
\<close>

theorem handler_error_leaves_table:
  assumes "data_segment p1 ip1 t1" and "data_segment p2 ip2 t2"
    and "tcp_FastHash t1 = F" and "tcp_FastHash t2 = F"
    and "sessionBuffers st F = Some old"
    and "fn (handler_state st) (Some (tcp_src ip1 t1)) (Some (tcp_dst ip1 t1))
           (old @ tcp_Payload t1) = ((k, Some e), h')"
    and "e \<noteq> EOF"
  shows "fst (process_packet fn p1 st) = Continue \<and>
         sessionBuffers (snd (process_packet fn p1 st)) = sessionBuffers st \<and>
         calls (snd (process_packet fn p2 (snd (process_packet fn p1 st)))) =
           calls st @ [(Some (tcp_src ip1 t1), Some (tcp_dst ip1 t1), old @ tcp_Payload t1),
                       (Some (tcp_src ip2 t2), Some (tcp_dst ip2 t2), old @ tcp_Payload t2)]"
proof -
  let ?src = "Some (tcp_src ip1 t1)" and ?dst = "Some (tcp_dst ip1 t1)"
  let ?b = "old @ tcp_Payload t1"
  let ?st1 = "st\<lparr>handler_state := h', calls := calls st @ [(?src, ?dst, ?b)],
                   logs := logs st @ [DataHandlerFailed ?src ?dst e]\<rparr>"
  have "process_packet fn p1 st = deliver fn ?src ?dst F ?b st"
    using assms(1,3,5) process_data_segment [of p1 ip1 t1 st old fn] by simp
  also have "\<dots> = (Continue, ?st1)"
    using assms(6,7) by (rule deliver_error)
  finally have one: "process_packet fn p1 st = (Continue, ?st1)" .
  have "sessionBuffers ?st1 (tcp_FastHash t2) = Some old"
    using assms(4,5) by simp
  with assms(2) have two: "process_packet fn p2 ?st1 =
      deliver fn (Some (tcp_src ip2 t2)) (Some (tcp_dst ip2 t2)) (tcp_FastHash t2)
        (old @ tcp_Payload t2) ?st1"
    by (rule process_data_segment)
  show ?thesis
    by (simp add: one two deliver_calls)
qed

theorem handler_error_leaves_table_witness:
  "fst (process_packet fail_then_take_all (payload 7 [0x43, 0x44])
          ((init_state 0)\<lparr>sessionBuffers := [7 \<mapsto> [0x41]]\<rparr>)) = Continue \<and>
   sessionBuffers (snd (process_packet fail_then_take_all (payload 7 [0x43, 0x44])
          ((init_state 0)\<lparr>sessionBuffers := [7 \<mapsto> [0x41]]\<rparr>))) = [7 \<mapsto> [0x41]] \<and>
   calls (snd (process_packet fail_then_take_all (payload 7 [0x45])
       (snd (process_packet fail_then_take_all (payload 7 [0x43, 0x44])
          ((init_state 0)\<lparr>sessionBuffers := [7 \<mapsto> [0x41]]\<rparr>))))) =
     [(Some (TCPAddr [10, 0, 0, 1] 1234), Some (TCPAddr [10, 0, 0, 2] 80), [0x41, 0x43, 0x44]),
      (Some (TCPAddr [10, 0, 0, 1] 1234), Some (TCPAddr [10, 0, 0, 2] 80), [0x41, 0x45])]"
  using handler_error_leaves_table [of "payload 7 [0x43, 0x44]"
      "\<lparr>SrcIP = [10, 0, 0, 1], DstIP = [10, 0, 0, 2], NextLayerType = LayerTypeTCP\<rparr>"
      "\<lparr>tcp_SrcPort = 1234, tcp_DstPort = 80, SYN = False, ACK = True, FIN = False,
        tcp_Payload = [0x43, 0x44], tcp_FastHash = 7\<rparr>"
      "payload 7 [0x45]"
      "\<lparr>SrcIP = [10, 0, 0, 1], DstIP = [10, 0, 0, 2], NextLayerType = LayerTypeTCP\<rparr>"
      "\<lparr>tcp_SrcPort = 1234, tcp_DstPort = 80, SYN = False, ACK = True, FIN = False,
        tcp_Payload = [0x45], tcp_FastHash = 7\<rparr>"
      7 "(init_state 0)\<lparr>sessionBuffers := [7 \<mapsto> [0x41]]\<rparr>" "[0x41]"
      fail_then_take_all 0 "OtherError ''decode failed''" 1]
  by (simp add: packet_defs data_segment_def tcp_packet_def tcp_src_def tcp_dst_def
      init_state_def fail_then_take_all_def)

lemma deliver_crash_iff:
  "fst (deliver fn src dst F buffer st) = Crash p \<longleftrightarrow>
     p = SliceBoundsOutOfRange \<and>
     (\<exists>k h'. fn (handler_state st) src dst buffer = ((k, None), h') \<and>
             (k < 0 \<or> int (length buffer) < k))"
  by (auto simp add: deliver_def slice_from_def Let_def split: prod.splits option.splits)

text \<open>
  C7. The handler's count must lie within \<open>0 \<le> usedSize \<le> len(buffer)\<close>. When the handler
  returns no error and a count greater than the length of the buffer it was given, the
  slice expression of line 170 is out of range and the iteration panics, after the call
  has been made: for a data segment of a stored flow, for a UDP packet of a flow with no
  entry and for a packet of another transport (both hand over the empty buffer, so any
  positive count does it), the loop ends in that panic and returns no error. Conversely
  the call of the handler panics only so: with no error and a count below 0 or above the
  length.
\<close>

theorem used_size_beyond_buffer_panics:
  assumes "fn (handler_state st) src dst buffer = ((k, None), h')"
    and "int (length buffer) < k"
  shows "deliver fn src dst F buffer st =
           (Crash SliceBoundsOutOfRange,
            st\<lparr>handler_state := h', calls := calls st @ [(src, dst, buffer)]\<rparr>) \<and>
         (data_segment pkg ip tcp \<and> sessionBuffers st (tcp_FastHash tcp) = Some old \<and>
          src = Some (tcp_src ip tcp) \<and> dst = Some (tcp_dst ip tcp) \<and>
          buffer = old @ tcp_Payload tcp \<longrightarrow>
            fst (capture_loop (Some fn) (Pkg (Some pkg) # evs) st) =
              Panicked SliceBoundsOutOfRange) \<and>
         (layer_IPv4 pkg = Some ip \<and> NextLayerType ip = LayerTypeUDP \<and>
          layer_UDP pkg = Some udp \<and> sessionBuffers st (udp_FastHash udp) = None \<and>
          src = Some (UDPAddr (SrcIP ip) (uint (udp_SrcPort udp))) \<and>
          dst = Some (UDPAddr (DstIP ip) (uint (udp_DstPort udp))) \<and> buffer = [] \<longrightarrow>
            fst (capture_loop (Some fn) (Pkg (Some pkg) # evs) st) =
              Panicked SliceBoundsOutOfRange) \<and>
         (layer_IPv4 pkg = Some ip \<and> NextLayerType ip = LayerTypeOther name \<and>
          src = None \<and> dst = None \<and> buffer = [] \<longrightarrow>
            fst (capture_loop (Some fn) (Pkg (Some pkg) # evs) st) =
              Panicked SliceBoundsOutOfRange) \<and>
         (\<forall>p. fst (deliver fn src dst F buffer st) = Crash p \<longleftrightarrow>
               p = SliceBoundsOutOfRange \<and>
               (\<exists>k h'. fn (handler_state st) src dst buffer = ((k, None), h') \<and>
                       (k < 0 \<or> int (length buffer) < k)))"
proof (intro conjI impI)
  show crash: "\<And>F. deliver fn src dst F buffer st =
      (Crash SliceBoundsOutOfRange,
       st\<lparr>handler_state := h', calls := calls st @ [(src, dst, buffer)]\<rparr>)"
    using assms by (simp add: deliver_out_of_range)
  show "\<forall>p. fst (deliver fn src dst F buffer st) = Crash p \<longleftrightarrow>
               p = SliceBoundsOutOfRange \<and>
               (\<exists>k h'. fn (handler_state st) src dst buffer = ((k, None), h') \<and>
                       (k < 0 \<or> int (length buffer) < k))"
    by (simp add: deliver_crash_iff)
  {
    assume a: "data_segment pkg ip tcp \<and> sessionBuffers st (tcp_FastHash tcp) = Some old \<and>
          src = Some (tcp_src ip tcp) \<and> dst = Some (tcp_dst ip tcp) \<and>
          buffer = old @ tcp_Payload tcp"
    then have "process_packet fn pkg st = deliver fn src dst (tcp_FastHash tcp) buffer st"
      by (simp add: process_data_segment)
    then show "fst (capture_loop (Some fn) (Pkg (Some pkg) # evs) st) =
        Panicked SliceBoundsOutOfRange"
      by (simp add: crash)
  }
  {
    assume a: "layer_IPv4 pkg = Some ip \<and> NextLayerType ip = LayerTypeUDP \<and>
          layer_UDP pkg = Some udp \<and> sessionBuffers st (udp_FastHash udp) = None \<and>
          src = Some (UDPAddr (SrcIP ip) (uint (udp_SrcPort udp))) \<and>
          dst = Some (UDPAddr (DstIP ip) (uint (udp_DstPort udp))) \<and> buffer = []"
    then have "process_packet fn pkg st = deliver fn src dst (udp_FastHash udp) buffer st"
      by (simp add: process_packet_def process_udp_def)
    then show "fst (capture_loop (Some fn) (Pkg (Some pkg) # evs) st) =
        Panicked SliceBoundsOutOfRange"
      by (simp add: crash)
  }
  {
    assume a: "layer_IPv4 pkg = Some ip \<and> NextLayerType ip = LayerTypeOther name \<and>
          src = None \<and> dst = None \<and> buffer = []"
    let ?st = "st\<lparr>logs := logs st @ [UnsupportedTransportLayer name]\<rparr>"
    have "fn (handler_state ?st) src dst buffer = ((k, None), h')"
      using assms(1) by simp
    then have "deliver fn src dst 0 buffer ?st =
        (Crash SliceBoundsOutOfRange,
         ?st\<lparr>handler_state := h', calls := calls ?st @ [(src, dst, buffer)]\<rparr>)"
      using assms(2) by (simp add: deliver_out_of_range)
    moreover have "process_packet fn pkg st = deliver fn src dst 0 buffer ?st"
      using a by (simp add: process_packet_def)
    ultimately show "fst (capture_loop (Some fn) (Pkg (Some pkg) # evs) st) =
        Panicked SliceBoundsOutOfRange"
      by simp
  }
qed

theorem used_size_beyond_buffer_panics_witness:
  "fst (capture_loop (Some take_one) [Pkg (Some (udp_datagram 9 [0x41, 0x42]))] (init_state ())) =
     Panicked SliceBoundsOutOfRange \<and>
   deliver take_one None None 0 [] (init_state ()) =
     (Crash SliceBoundsOutOfRange, (init_state ())\<lparr>calls := [(None, None, [])]\<rparr>)"
  using used_size_beyond_buffer_panics [where fn = take_one and st = "init_state ()"
      and src = "Some (UDPAddr [10, 0, 0, 1] 5353)" and dst = "Some (UDPAddr [10, 0, 0, 2] 53)"
      and buffer = "[]" and k = 1 and h' = "()" and pkg = "udp_datagram 9 [0x41, 0x42]"
      and ip = "\<lparr>SrcIP = [10, 0, 0, 1], DstIP = [10, 0, 0, 2], NextLayerType = LayerTypeUDP\<rparr>"
      and udp = "\<lparr>udp_SrcPort = 5353, udp_DstPort = 53, udp_Payload = [0x41, 0x42],
        udp_FastHash = 9\<rparr>" and evs = "[]"]
    used_size_beyond_buffer_panics [where fn = take_one and st = "init_state ()"
      and src = None and dst = None and buffer = "[]" and k = 1 and h' = "()" and F = 0]
  by (simp del: capture_loop.simps add: packet_defs take_one_def init_state_def)

section \<open>Properties of CreateHandler\<close>

lemma FindStringSubmatch_proto:
  "FindStringSubmatch s = Some (proto, source) \<Longrightarrow> proto = ''pcap'' \<or> proto = ''file''"
  by (auto simp add: FindStringSubmatch_def split: if_splits)

lemma FindStringSubmatch_file:
  "CHR 0x0A \<notin> set src \<Longrightarrow> FindStringSubmatch (''file://'' @ src) = Some (''file'', src)"
  by (simp add: FindStringSubmatch_def)

lemma FindStringSubmatch_pcap:
  "CHR 0x0A \<notin> set src \<Longrightarrow> FindStringSubmatch (''pcap://'' @ src) = Some (''pcap'', src)"
  by (simp add: FindStringSubmatch_def)

lemma takeWhile_upto:
  "c \<notin> set xs \<Longrightarrow> takeWhile (\<lambda>x. x \<noteq> c) (xs @ c # ys) = xs"
  by (induction xs) auto

lemma prefix_mode:
  assumes "take 7 (mode @ ''://'' @ src) = m @ ''://''" and "CHR '':'' \<notin> set mode"
    and "CHR '':'' \<notin> set m"
  shows "mode = m"
proof -
  define d where "d = mode @ ''://'' @ src"
  have "takeWhile (\<lambda>c. c \<noteq> CHR '':'') d = mode"
    using assms(2) takeWhile_upto [of "CHR '':''" mode "''//'' @ src"] by (simp add: d_def)
  moreover have "d = (m @ ''://'') @ drop 7 d"
    using assms(1) append_take_drop_id [of 7 d] by (simp add: d_def)
  then have "takeWhile (\<lambda>c. c \<noteq> CHR '':'') d =
      takeWhile (\<lambda>c. c \<noteq> CHR '':'') (m @ CHR '':'' # (''//'' @ drop 7 d))"
    by simp
  then have "takeWhile (\<lambda>c. c \<noteq> CHR '':'') d = m"
    using assms(3) takeWhile_upto [of "CHR '':''" m "''//'' @ drop 7 d"] by simp
  ultimately show ?thesis by simp
qed

lemma unknown_mode_no_match:
  assumes "CHR '':'' \<notin> set mode" and "mode \<noteq> ''pcap''" and "mode \<noteq> ''file''"
  shows "FindStringSubmatch (mode @ ''://'' @ src) = None"
proof -
  have "take 7 (mode @ ''://'' @ src) \<noteq> ''pcap://''"
    using prefix_mode [of mode src "''pcap''"] assms by auto
  moreover have "take 7 (mode @ ''://'' @ src) \<noteq> ''file://''"
    using prefix_mode [of mode src "''file''"] assms by auto
  ultimately show ?thesis
    by (simp add: FindStringSubmatch_def)
qed

text \<open>
  C8, as stated, fails. The descriptor http://eth0 has the shape mode://source with a mode
  that is neither pcap nor file; it fails with the invalid-data-source error of line 29,
  not with the unknown-protocol error of line 71.
\<close>

theorem unknown_mode_is_invalid_data_source:
  "CreateHandler loopback_host ''http://eth0'' = Inl (InvalidDataSource ''http://eth0'') \<and>
   CreateHandler loopback_host ''http://eth0'' \<noteq> Inl (UnknownPcapProtocol ''http'')"
  by (simp add: CreateHandler_def FindStringSubmatch_def)

text \<open>
  C8, amended. A descriptor the pattern does not match fails with the invalid-data-source
  error, and that includes every descriptor of shape mode://source whose mode (a token
  without a colon) is neither pcap nor file, since the pattern itself admits only these
  two modes. The unknown-protocol error is returned for no descriptor at all.
\<close>

theorem descriptor_errors:
  "(FindStringSubmatch d = None \<longrightarrow> CreateHandler env d = Inl (InvalidDataSource d)) \<and>
   (CHR '':'' \<notin> set mode \<and> mode \<noteq> ''pcap'' \<and> mode \<noteq> ''file'' \<longrightarrow>
      CreateHandler env (mode @ ''://'' @ src) = Inl (InvalidDataSource (mode @ ''://'' @ src))) \<and>
   CreateHandler env d \<noteq> Inl (UnknownPcapProtocol p)"
proof (intro conjI impI)
  show "CreateHandler env d = Inl (InvalidDataSource d)" if "FindStringSubmatch d = None"
    using that by (simp add: CreateHandler_def)
  show "CreateHandler env (mode @ ''://'' @ src) = Inl (InvalidDataSource (mode @ ''://'' @ src))"
    if "CHR '':'' \<notin> set mode \<and> mode \<noteq> ''pcap'' \<and> mode \<noteq> ''file''"
    using that unknown_mode_no_match [of mode src] by (simp add: CreateHandler_def)
  show "CreateHandler env d \<noteq> Inl (UnknownPcapProtocol p)"
  proof (cases "FindStringSubmatch d")
    case None
    then show ?thesis by (simp add: CreateHandler_def)
  next
    case (Some m)
    obtain proto source where m: "m = (proto, source)" by (cases m)
    with Some have "proto = ''pcap'' \<or> proto = ''file''"
      using FindStringSubmatch_proto by blast
    then show ?thesis
      using Some m
      by (auto simp add: CreateHandler_def resolve_source_def open_live_def open_offline_def
          split: sum.splits option.splits)
  qed
qed

theorem descriptor_errors_witness:
  "CreateHandler loopback_host ''eth0'' = Inl (InvalidDataSource ''eth0'') \<and>
   CreateHandler loopback_host (''live'' @ ''://'' @ ''eth0'') =
     Inl (InvalidDataSource (''live'' @ ''://'' @ ''eth0''))"
  using descriptor_errors [of "''eth0''" loopback_host]
    descriptor_errors [of _ loopback_host "''live''" "''eth0''"]
  by (simp add: FindStringSubmatch_def)

text \<open>
  C9, as stated, fails. On a host where 127.0.0.1 is an address of interface lo, the
  descriptor file://127.0.0.1 opens the offline source lo, not the file 127.0.0.1.
\<close>

theorem file_locator_is_rewritten:
  "CreateHandler loopback_host ''file://127.0.0.1'' = Inr (OfflineHandle ''lo'') \<and>
   CreateHandler loopback_host ''file://127.0.0.1'' \<noteq> Inr (OfflineHandle ''127.0.0.1'')"
  by (simp add: CreateHandler_def FindStringSubmatch_def resolve_source_def open_offline_def
      loopback_host_def)

lemma find_iface_no_owner:
  "\<forall>i\<in>set ifaceList. \<forall>a\<in>set (Addresses i). \<not> eq a ip \<Longrightarrow>
   find_iface eq ip ifaceList source = source"
  by (induction ifaceList) (auto simp add: list_ex_iff)

text \<open>
  C9, amended. The rewriting of the locator is done before the mode is looked at, the
  same way in file mode and in pcap mode. In file mode the locator reaches
  \<open>OpenOffline\<close> unchanged when it does not resolve as an IP address, or when it resolves
  and no enumerated interface has that address; when it resolves and an interface has
  the address, the name of the first such interface is opened instead.
\<close>

theorem locator_rewriting_in_both_modes:
  assumes "CHR 0x0A \<notin> set src"
  shows "CreateHandler env (''file://'' @ src) =
           (case resolve_source env src of
              Inl e \<Rightarrow> Inl e | Inr source \<Rightarrow> open_offline env source) \<and>
         CreateHandler env (''pcap://'' @ src) =
           (case resolve_source env src of
              Inl e \<Rightarrow> Inl e | Inr source \<Rightarrow> open_live env source) \<and>
         (ResolveIPAddr env src = None \<longrightarrow>
            CreateHandler env (''file://'' @ src) = open_offline env src) \<and>
         (ResolveIPAddr env src = Some ip \<and> FindAllDevs env = Inr ifaceList \<longrightarrow>
            CreateHandler env (''file://'' @ src) =
              open_offline env (find_iface (IPEqual env) ip ifaceList src)) \<and>
         (ResolveIPAddr env src = Some ip \<and> FindAllDevs env = Inr ifaceList \<and>
          (\<forall>i\<in>set ifaceList. \<forall>a\<in>set (Addresses i). \<not> IPEqual env a ip) \<longrightarrow>
            CreateHandler env (''file://'' @ src) = open_offline env src)"
proof -
  have f: "CreateHandler env (''file://'' @ src) =
           (case resolve_source env src of
              Inl e \<Rightarrow> Inl e | Inr source \<Rightarrow> open_offline env source)"
    using assms FindStringSubmatch_file [of src]
    by (simp add: CreateHandler_def split: sum.splits)
  have p: "CreateHandler env (''pcap://'' @ src) =
           (case resolve_source env src of
              Inl e \<Rightarrow> Inl e | Inr source \<Rightarrow> open_live env source)"
    using assms FindStringSubmatch_pcap [of src]
    by (simp add: CreateHandler_def split: sum.splits)
  have n: "ResolveIPAddr env src = None \<longrightarrow>
            CreateHandler env (''file://'' @ src) = open_offline env src"
    using f by (simp add: resolve_source_def)
  have r: "ResolveIPAddr env src = Some ip \<and> FindAllDevs env = Inr ifaceList \<longrightarrow>
            CreateHandler env (''file://'' @ src) =
              open_offline env (find_iface (IPEqual env) ip ifaceList src)"
    using f by (simp add: resolve_source_def)
  have u: "ResolveIPAddr env src = Some ip \<and> FindAllDevs env = Inr ifaceList \<and>
          (\<forall>i\<in>set ifaceList. \<forall>a\<in>set (Addresses i). \<not> IPEqual env a ip) \<longrightarrow>
            CreateHandler env (''file://'' @ src) = open_offline env src"
    using r find_iface_no_owner [of ifaceList "IPEqual env" ip src] by simp
  from f p n r u show ?thesis by blast
qed

theorem locator_rewriting_in_both_modes_witness:
  "CreateHandler loopback_host (''file://'' @ ''dump.pcap'') = Inr (OfflineHandle ''dump.pcap'') \<and>
   CreateHandler loopback_host (''file://'' @ ''127.0.0.1'') = Inr (OfflineHandle ''lo'') \<and>
   CreateHandler loopback_host (''pcap://'' @ ''127.0.0.1'') = Inr (LiveHandle ''lo'')"
  using locator_rewriting_in_both_modes [of "''dump.pcap''" loopback_host]
    locator_rewriting_in_both_modes [of "''127.0.0.1''" loopback_host "[127, 0, 0, 1]"
      "[\<lparr>Name = ''eth0'', Addresses = [[192, 168, 1, 5]]\<rparr>,
        \<lparr>Name = ''lo'', Addresses = [[127, 0, 0, 1]]\<rparr>]"]
  by (simp add: loopback_host_def resolve_source_def open_offline_def open_live_def)

end
